theory Spec2Isabelle
  imports Main "HOL-Library.Sublist"
begin

section \<open>Strings as Python sees them\<close>

text \<open>
  A Python \<open>str\<close> is a sequence of code points. Here a \<open>char\<close> stands for one code
  point below 256, so \<open>length\<close> is Python's \<open>len\<close>; product text with code points
  beyond that range is outside the model. The only such code point in the program's own
  text is the bullet of one description template (see \<open>generate_description\<close>).
\<close>

definition lower_char :: "char \<Rightarrow> char" where
  \<comment> \<open>\<open>str.lower\<close> on one code point below 256: A..Z and the capital letters
      U+00C0..U+00DE (the multiplication sign U+00D7 apart) move up by 32.\<close>
  "lower_char c =
     (let n = (of_char c :: nat)
      in if (65 \<le> n \<and> n \<le> 90) \<or> (192 \<le> n \<and> n \<le> 222 \<and> n \<noteq> 215)
         then char_of (n + 32) else c)"

definition lower :: "string \<Rightarrow> string" where
  "lower s = map lower_char s"

definition isspace :: "char \<Rightarrow> bool" where
  \<comment> \<open>\<open>str.isspace\<close> on one code point below 256.\<close>
  "isspace c =
     (let n = (of_char c :: nat)
      in (9 \<le> n \<and> n \<le> 13) \<or> (28 \<le> n \<and> n \<le> 32) \<or> n = 133 \<or> n = 160)"

definition strip :: "string \<Rightarrow> string" where
  "strip s = rev (dropWhile isspace (rev (dropWhile isspace s)))"

definition py_in :: "string \<Rightarrow> string \<Rightarrow> bool" where
  \<comment> \<open>\<open>t in s\<close> on strings: \<open>t\<close> occurs in \<open>s\<close> as a contiguous block.\<close>
  "py_in t s = sublist t s"

definition startswith :: "string \<Rightarrow> string \<Rightarrow> bool" where
  "startswith s t = prefix t s"

fun join :: "string \<Rightarrow> string list \<Rightarrow> string" where
  "join sep [] = []"
| "join sep [x] = x"
| "join sep (x # y # ys) = x @ sep @ join sep (y # ys)"

definition digit_char :: "nat \<Rightarrow> char" where
  "digit_char d = char_of (48 + d)"

function str_nat :: "nat \<Rightarrow> string" where
  \<comment> \<open>The decimal text an f-string gives for a non-negative \<open>int\<close>.\<close>
  "str_nat n = (if n < 10 then [digit_char n] else str_nat (n div 10) @ [digit_char (n mod 10)])"
  by pat_completeness auto
termination
  by (relation "measure id") auto

declare str_nat.simps [simp del]

section \<open>Data\<close>

text \<open>
  A product is a Python \<open>dict\<close>; a key may be missing, so each field is an \<open>option\<close>
  (\<open>None\<close>: the key is absent). \<open>product.get(k, d)\<close> is \<open>get_or\<close>, \<open>product[k]\<close> is
  \<open>subscript\<close> and raises \<open>KeyError\<close>. The keys \<open>tags\<close> and \<open>price\<close> are left out:
  \<open>tags\<close> is never read, and \<open>price\<close> is read into a local that is never used.
\<close>

record product =
  pid :: "string option"
  title :: "string option"
  description :: "string option"
  vendor :: "string option"
  product_type :: "string option"
  seo_title :: "string option"
  seo_description :: "string option"

datatype error = KeyError string | ValueError

definition get_or :: "'a option \<Rightarrow> 'a \<Rightarrow> 'a" where
  "get_or v d = (case v of None \<Rightarrow> d | Some x \<Rightarrow> x)"

definition subscript :: "string \<Rightarrow> 'a option \<Rightarrow> error + 'a" where
  "subscript k v = (case v of None \<Rightarrow> Inl (KeyError k) | Some x \<Rightarrow> Inr x)"

record issue =
  itype :: string
  severity :: string
  message :: string

record audit_result =
  a_product_id :: string
  a_product_title :: string
  issues_found :: nat
  issues :: "issue list"
  a_severity :: string

section \<open>The checker (checker_mcp.py)\<close>

definition MIN_DESCRIPTION_LENGTH :: nat where "MIN_DESCRIPTION_LENGTH = 100"
definition MIN_SEO_TITLE_LENGTH :: nat where "MIN_SEO_TITLE_LENGTH = 30"
definition MIN_SEO_DESCRIPTION_LENGTH :: nat where "MIN_SEO_DESCRIPTION_LENGTH = 80"
definition MAX_SEO_DESCRIPTION_LENGTH :: nat where "MAX_SEO_DESCRIPTION_LENGTH = 160"

definition PREMIUM_KEYWORDS :: "string list" where
  "PREMIUM_KEYWORDS = [''premium'', ''luxury'', ''exclusive'', ''professional'', ''exceptional'']"

definition CTA_KEYWORDS :: "string list" where
  "CTA_KEYWORDS =
     [''discover'', ''experience'', ''transform'', ''elevate'', ''shop now'', ''order'', ''buy'']"

definition BENEFIT_KEYWORDS :: "string list" where
  "BENEFIT_KEYWORDS =
     [''benefits'', ''results'', ''improves'', ''enhances'', ''reduces'', ''promotes'']"

definition vague_terms :: "string list" where
  "vague_terms = [''good'', ''nice'', ''stuff'', ''things'', ''really'']"

definition check_description :: "string \<Rightarrow> issue list" where
  "check_description d =
     (if length d < MIN_DESCRIPTION_LENGTH
      then [\<lparr>itype = ''description_length'', severity = ''high'',
             message = ''Description too short ('' @ str_nat (length d)
                       @ '' chars). Minimum: '' @ str_nat MIN_DESCRIPTION_LENGTH\<rparr>]
      else [])
     @ (if d = [] \<or> strip d = []
        then [\<lparr>itype = ''missing_description'', severity = ''critical'',
               message = ''Product description is missing''\<rparr>]
        else [])
     @ (let found_vague = filter (\<lambda>term. py_in (lower term) (lower d)) vague_terms
        in if found_vague \<noteq> []
           then [\<lparr>itype = ''vague_language'', severity = ''medium'',
                  message = ''Contains vague terms: '' @ join '', '' found_vague\<rparr>]
           else [])"

definition check_seo_fields :: "product \<Rightarrow> issue list" where
  "check_seo_fields p =
     (let st = get_or (seo_title p) [];
          sd = get_or (seo_description p) []
      in (if st = [] \<or> length st < MIN_SEO_TITLE_LENGTH
          then [\<lparr>itype = ''seo_title'', severity = ''high'',
                 message = ''SEO title missing or too short''\<rparr>]
          else [])
         @ (if sd = []
            then [\<lparr>itype = ''seo_description_missing'', severity = ''high'',
                   message = ''SEO description is missing''\<rparr>]
            else if length sd < MIN_SEO_DESCRIPTION_LENGTH
            then [\<lparr>itype = ''seo_description_short'', severity = ''medium'',
                   message = ''SEO description too short ('' @ str_nat (length sd)
                             @ '' chars)''\<rparr>]
            else if length sd > MAX_SEO_DESCRIPTION_LENGTH
            then [\<lparr>itype = ''seo_description_long'', severity = ''low'',
                   message = ''SEO description too long ('' @ str_nat (length sd)
                             @ '' chars). Max: '' @ str_nat MAX_SEO_DESCRIPTION_LENGTH\<rparr>]
            else []))"

definition check_tone :: "string \<Rightarrow> issue list" where
  "check_tone d =
     (let description_lower = lower d;
          has_premium_tone = list_ex (\<lambda>keyword. py_in keyword description_lower) PREMIUM_KEYWORDS
      in if \<not> has_premium_tone
         then [\<lparr>itype = ''tone_not_premium'', severity = ''medium'',
                message = ''Missing premium/luxury brand tone''\<rparr>]
         else [])"

definition check_conversion_elements :: "string \<Rightarrow> issue list" where
  "check_conversion_elements d =
     (let description_lower = lower d;
          has_cta = list_ex (\<lambda>keyword. py_in keyword description_lower) CTA_KEYWORDS;
          has_benefits = list_ex (\<lambda>keyword. py_in keyword description_lower) BENEFIT_KEYWORDS
      in (if \<not> has_cta
          then [\<lparr>itype = ''missing_cta'', severity = ''medium'',
                 message = ''Missing clear call-to-action''\<rparr>]
          else [])
         @ (if \<not> has_benefits
            then [\<lparr>itype = ''missing_benefits'', severity = ''low'',
                   message = ''Could emphasize customer benefits more clearly''\<rparr>]
            else []))"

definition calculate_severity :: "issue list \<Rightarrow> string" where
  "calculate_severity iss =
     (if iss = [] then ''none''
      else let severities = map severity iss
           in if ''critical'' \<in> set severities then ''critical''
              else if ''high'' \<in> set severities then ''high''
              else if ''medium'' \<in> set severities then ''medium''
              else ''low'')"

definition audit_product :: "product \<Rightarrow> error + audit_result" where
  "audit_product p =
     (let d = get_or (description p) [];
          iss = check_description d @ check_seo_fields p @ check_tone d
                @ check_conversion_elements d
      in case subscript ''id'' (pid p) of
           Inl e \<Rightarrow> Inl e
         | Inr i \<Rightarrow>
             (case subscript ''title'' (title p) of
                Inl e \<Rightarrow> Inl e
              | Inr t \<Rightarrow>
                  Inr \<lparr>a_product_id = i, a_product_title = t, issues_found = length iss,
                       issues = iss, a_severity = calculate_severity iss\<rparr>))"

section \<open>The generator (generator_mcp.py)\<close>

record optimization =
  o_product_id :: string
  original_description :: string
  optimized_description :: "string option"
  optimized_seo_title :: "string option"
  optimized_seo_description :: "string option"
  improvements_made :: "string list"

definition rewrite_triggers :: "string list" where
  "rewrite_triggers =
     [''description_length'', ''missing_description'', ''vague_language'',
      ''tone_not_premium'', ''missing_cta'', ''missing_benefits'']"

definition needs_description_rewrite :: "string list \<Rightarrow> bool" where
  "needs_description_rewrite issue_types =
     list_ex (\<lambda>trigger. trigger \<in> set issue_types) rewrite_triggers"

definition nl :: string where
  "nl = [CHR 0x0A]"

definition bullet :: string where
  \<comment> \<open>U+2022, the one code point of the program text beyond 255, written as its three
      UTF-8 bytes; nothing in the program measures or inspects the text that holds it.\<close>
  "bullet = [CHR 0xE2, CHR 0x80, CHR 0xA2]"

definition generate_description :: "product \<Rightarrow> string" where
  "generate_description p =
     (let t = get_or (title p) ''Product'';
          pt = get_or (product_type p) ''item''
      in (''Discover the exceptional quality of our '' @ t @ '', ''
          @ ''a premium '' @ lower pt @ '' crafted for those who appreciate excellence.'')
         @ (if py_in ''cream'' (lower t) \<or> py_in ''skincare'' (lower pt)
            then nl @ nl @ ''Experience transformative results with our carefully formulated blend of ''
                 @ ''natural ingredients. This luxurious formula deeply nourishes your skin, ''
                 @ ''promoting a radiant, healthy complexion while reducing the visible signs of aging.''
            else if py_in ''serum'' (lower t)
            then nl @ nl @ ''This professional-grade serum delivers powerful anti-aging benefits through ''
                 @ ''a concentrated blend of scientifically-proven ingredients. Enhances skin elasticity, ''
                 @ ''reduces fine lines, and restores your skin'' @ [CHR 0x27] @ ''s natural luminosity.''
            else nl @ nl @ ''Meticulously designed to deliver exceptional results, this product combines ''
                 @ ''premium ingredients with expert craftsmanship to exceed your expectations.'')
         @ (nl @ nl @ ''**Key Benefits:**'' @ nl
            @ bullet @ '' Premium, professionally-formulated ingredients'' @ nl
            @ bullet @ '' Visible results you can see and feel'' @ nl
            @ bullet @ '' Suitable for all skin types'' @ nl
            @ bullet @ '' Cruelty-free and ethically sourced'')
         @ (nl @ nl @ ''Trusted by discerning customers worldwide, our '' @ t @ '' represents ''
            @ ''the perfect balance of luxury and effectiveness.'')
         @ (nl @ nl @ ''Elevate your skincare routine today. ''
            @ ''Experience the difference that premium quality makes.''))"

definition generate_seo_title :: "product \<Rightarrow> string" where
  "generate_seo_title p =
     (let t = get_or (title p) [];
          v = get_or (vendor p) [];
          benefit = (if py_in ''cream'' (lower t) then ''Nourishing & Anti-Aging''
                     else if py_in ''serum'' (lower t) then ''Professional Anti-Aging Treatment''
                     else ''Premium Quality'');
          seo_title1 = t @ '' | '' @ benefit;
          seo_title2 = (if v \<noteq> [] then seo_title1 @ '' | '' @ v else seo_title1)
      in if length seo_title2 > 60 then t @ '' | '' @ benefit else seo_title2)"

definition generate_seo_description :: "product \<Rightarrow> string" where
  "generate_seo_description p =
     (let t = get_or (title p) [];
          seo_desc =
            (if py_in ''cream'' (lower t)
             then ''Experience premium '' @ lower t @ '' with natural ingredients. ''
                  @ ''Nourishes, protects, and rejuvenates your skin. Shop our luxury skincare collection.''
             else if py_in ''serum'' (lower t)
             then ''Professional-grade '' @ lower t @ '' delivers powerful anti-aging results. ''
                  @ ''Reduce fine lines and restore radiance. Premium quality guaranteed.''
             else ''Discover our premium '' @ lower t @ '' - exceptional quality and results. ''
                  @ ''Trusted by customers worldwide. Shop now for exclusive offers.'')
      in if length seo_desc > 160 then take 157 seo_desc @ ''...'' else seo_desc)"

definition generate_optimized_content :: "product \<Rightarrow> issue list \<Rightarrow> error + optimization" where
  "generate_optimized_content p iss =
     (let issue_types = map itype iss
      in case subscript ''id'' (pid p) of
           Inl e \<Rightarrow> Inl e
         | Inr i \<Rightarrow>
             (let o0 = \<lparr>o_product_id = i,
                        original_description = get_or (description p) [],
                        optimized_description = None,
                        optimized_seo_title = None,
                        optimized_seo_description = None,
                        improvements_made = []\<rparr>;
                  o1 = (if needs_description_rewrite issue_types
                        then o0\<lparr>optimized_description := Some (generate_description p),
                               improvements_made := improvements_made o0
                                 @ [''Rewrote product description with premium tone'']\<rparr>
                        else o0);
                  o2 = (if ''seo_title'' \<in> set issue_types
                        then o1\<lparr>optimized_seo_title := Some (generate_seo_title p),
                               improvements_made := improvements_made o1
                                 @ [''Created SEO-optimized title'']\<rparr>
                        else o1);
                  o3 = (if list_ex (\<lambda>t. startswith t ''seo_description'') issue_types
                        then o2\<lparr>optimized_seo_description := Some (generate_seo_description p),
                               improvements_made := improvements_made o2
                                 @ [''Created SEO meta description'']\<rparr>
                        else o2)
              in Inr o3))"

section \<open>The coordinator (mcp_server.py)\<close>

record processing_result =
  product_id :: string
  product_title :: string
  audit :: audit_result
  optimization :: "optimization option"
  action_required :: bool
  priority :: string

definition determine_priority :: "audit_result \<Rightarrow> string" where
  "determine_priority audit_result =
     (let sev = a_severity audit_result;
          issue_count = issues_found audit_result
      in if sev = ''critical'' then ''critical''
         else if sev = ''high'' \<or> issue_count \<ge> 5 then ''high''
         else if sev = ''medium'' \<or> issue_count \<ge> 3 then ''medium''
         else if issue_count > 0 then ''low''
         else ''none'')"

definition process_single_product :: "product \<Rightarrow> error + processing_result" where
  "process_single_product p =
     (case audit_product p of
        Inl e \<Rightarrow> Inl e
      | Inr audit_result \<Rightarrow>
          (case subscript ''id'' (pid p) of
             Inl e \<Rightarrow> Inl e
           | Inr i \<Rightarrow>
               (case subscript ''title'' (title p) of
                  Inl e \<Rightarrow> Inl e
                | Inr t \<Rightarrow>
                    (let result = \<lparr>product_id = i, product_title = t, audit = audit_result,
                                    optimization = None, action_required = False,
                                    priority = determine_priority audit_result\<rparr>
                     in if issues_found audit_result > 0
                        then (case generate_optimized_content p (issues audit_result) of
                                Inl e \<Rightarrow> Inl e
                              | Inr opt \<Rightarrow>
                                  Inr (result\<lparr>action_required := True,
                                              optimization := Some opt\<rparr>))
                        else Inr result))))"

fun process_products_loop ::
  "processing_result list \<Rightarrow> product list \<Rightarrow> error + processing_result list" where
  "process_products_loop results [] = Inr results"
| "process_products_loop results (p # ps) =
     (case process_single_product p of
        Inl e \<Rightarrow> Inl e
      | Inr result \<Rightarrow> process_products_loop (results @ [result]) ps)"

definition process_products :: "product list \<Rightarrow> error + processing_result list" where
  "process_products products = process_products_loop [] products"

definition priority_order :: "string list" where
  "priority_order = [''none'', ''low'', ''medium'', ''high'', ''critical'']"

fun index :: "'a list \<Rightarrow> 'a \<Rightarrow> error + nat" where
  \<comment> \<open>\<open>list.index\<close>: the first position of the value, \<open>ValueError\<close> when it is absent.\<close>
  "index [] v = Inl ValueError"
| "index (x # xs) v =
     (if x = v then Inr 0
      else case index xs v of Inl e \<Rightarrow> Inl e | Inr n \<Rightarrow> Inr (Suc n))"

fun filter_by_priority ::
  "nat \<Rightarrow> processing_result list \<Rightarrow> error + processing_result list" where
  \<comment> \<open>The list comprehension of \<open>process_batch_with_filters\<close>; its condition calls
      \<open>index\<close>, so it can raise.\<close>
  "filter_by_priority min_priority_index [] = Inr []"
| "filter_by_priority min_priority_index (result # rest) =
     (case index priority_order (priority result) of
        Inl e \<Rightarrow> Inl e
      | Inr k \<Rightarrow>
          (case filter_by_priority min_priority_index rest of
             Inl e \<Rightarrow> Inl e
           | Inr kept \<Rightarrow> Inr (if k \<ge> min_priority_index then result # kept else kept)))"

definition process_batch_with_filters ::
  "product list \<Rightarrow> string \<Rightarrow> error + processing_result list" where
  "process_batch_with_filters products min_priority =
     (case index priority_order min_priority of
        Inl e \<Rightarrow> Inl e
      | Inr min_priority_index \<Rightarrow>
          (case process_products products of
             Inl e \<Rightarrow> Inl e
           | Inr all_results \<Rightarrow> filter_by_priority min_priority_index all_results))"

record payload =
  p_product_id :: string
  updates :: "(string \<times> string) list"

definition truthy :: "string option \<Rightarrow> bool" where
  \<comment> \<open>Python's truth value of \<open>optimization.get(k)\<close>: \<open>None\<close> and the empty string are false.\<close>
  "truthy v = (case v of None \<Rightarrow> False | Some s \<Rightarrow> s \<noteq> [])"

definition export_for_shopify :: "processing_result \<Rightarrow> payload option" where
  \<comment> \<open>The \<open>updates\<close> dict is the list of its items in insertion order.\<close>
  "export_for_shopify result =
     (case optimization result of
        None \<Rightarrow> None
      | Some opt \<Rightarrow>
          (let u0 = [];
               u1 = (if truthy (optimized_description opt)
                     then u0 @ [(''description'', the (optimized_description opt))] else u0);
               u2 = (if truthy (optimized_seo_title opt)
                     then u1 @ [(''seo_title'', the (optimized_seo_title opt))] else u1);
               u3 = (if truthy (optimized_seo_description opt)
                     then u2 @ [(''seo_description'', the (optimized_seo_description opt))] else u2)
           in if u3 \<noteq> [] then Some \<lparr>p_product_id = product_id result, updates = u3\<rparr>
              else None))"

section \<open>Reference notions of the specification\<close>

definition severity_levels :: "string list" where
  "severity_levels = [''critical'', ''high'', ''medium'', ''low'']"

definition severity_rank :: "string \<Rightarrow> nat" where
  \<comment> \<open>The ordinal critical > high > medium > low > none of the specification.\<close>
  "severity_rank s =
     (if s = ''critical'' then 4 else if s = ''high'' then 3
      else if s = ''medium'' then 2 else if s = ''low'' then 1 else 0)"

definition priority_rank :: "string \<Rightarrow> nat" where
  \<comment> \<open>The ladder none < low < medium < high < critical of the specification.\<close>
  "priority_rank s =
     (if s = ''critical'' then 4 else if s = ''high'' then 3
      else if s = ''medium'' then 2 else if s = ''low'' then 1 else 0)"

definition seo_description_types :: "string list" where
  "seo_description_types =
     [''seo_description_missing'', ''seo_description_short'', ''seo_description_long'']"

definition seo_description_issues :: "issue list \<Rightarrow> issue list" where
  \<comment> \<open>The issues of a list that the SEO-description check can emit.\<close>
  "seo_description_issues iss = filter (\<lambda>i. itype i \<in> set seo_description_types) iss"

definition mentions :: "string \<Rightarrow> string \<Rightarrow> bool" where
  \<comment> \<open>\<open>t\<close> contains \<open>w\<close> case-insensitively: some block of \<open>t\<close> lower-cases to \<open>w\<close>.\<close>
  "mentions w t = (\<exists>u. sublist u t \<and> lower u = w)"

definition all_issue_types :: "string list" where
  \<comment> \<open>The issue types that occur in the four checks of the checker.\<close>
  "all_issue_types =
     [''description_length'', ''missing_description'', ''vague_language'', ''seo_title'',
      ''seo_description_missing'', ''seo_description_short'', ''seo_description_long'',
      ''tone_not_premium'', ''missing_cta'', ''missing_benefits'']"

definition regenerated_fields :: "optimization \<Rightarrow> (string \<times> string) list" where
  \<comment> \<open>The fields of an optimization that are set, under the keys of the update payload.\<close>
  "regenerated_fields opt =
     (case optimized_description opt of None \<Rightarrow> [] | Some s \<Rightarrow> [(''description'', s)])
     @ (case optimized_seo_title opt of None \<Rightarrow> [] | Some s \<Rightarrow> [(''seo_title'', s)])
     @ (case optimized_seo_description opt of None \<Rightarrow> []
        | Some s \<Rightarrow> [(''seo_description'', s)])"

definition no_empty_field :: "optimization \<Rightarrow> bool" where
  "no_empty_field opt =
     (optimized_description opt \<noteq> Some [] \<and> optimized_seo_title opt \<noteq> Some []
      \<and> optimized_seo_description opt \<noteq> Some [])"

definition fields_settled :: "processing_result \<Rightarrow> bool" where
  \<comment> \<open>No field of the result's optimization is set to the empty string.\<close>
  "fields_settled r = (case optimization r of None \<Rightarrow> True | Some opt \<Rightarrow> no_empty_field opt)"

section \<open>Sample inputs\<close>

definition six_low_issues :: "issue list" where
  "six_low_issues =
     replicate 6 \<lparr>itype = ''missing_benefits'', severity = ''low'',
                  message = ''Could emphasize customer benefits more clearly''\<rparr>"

definition mixed_issues :: "issue list" where
  "mixed_issues =
     [\<lparr>itype = ''missing_benefits'', severity = ''low'',
        message = ''Could emphasize customer benefits more clearly''\<rparr>,
      \<lparr>itype = ''missing_description'', severity = ''critical'',
        message = ''Product description is missing''\<rparr>,
      \<lparr>itype = ''missing_cta'', severity = ''medium'',
        message = ''Missing clear call-to-action''\<rparr>]"

definition face_cream :: product where
  "face_cream =
     \<lparr>pid = Some ''p1'', title = Some ''Organic Face Cream'',
      description = Some ''Good cream for your face. Made with natural stuff.'',
      vendor = Some ''LuxeBeauty'', product_type = Some ''Skincare'',
      seo_title = Some [], seo_description = Some []\<rparr>"

definition with_seo_description :: "nat \<Rightarrow> product" where
  "with_seo_description n = face_cream\<lparr>seo_description := Some (replicate n (CHR ''x''))\<rparr>"

definition long_vendor_cream :: product where
  "long_vendor_cream = face_cream\<lparr>vendor := Some ''LuxeBeauty Laboratories''\<rparr>"

definition serum :: product where
  "serum =
     \<lparr>pid = Some ''p2'', title = Some ''Radiance Serum'',
      description = Some (''Discover our premium serum: it improves skin tone and texture ''
                          @ ''with a professional formula made for daily care.''),
      vendor = Some ''LuxeBeauty'', product_type = Some ''Skincare'',
      seo_title = Some ''Premium Serum | Professional Anti-Aging Care'',
      seo_description = Some (''Discover a premium serum that improves skin tone and texture. ''
                              @ ''Shop now for exclusive offers.'')\<rparr>"

definition long_title_serum :: product where
  "long_title_serum =
     serum\<lparr>title := Some ''Radiance Serum with Vitamin C and Hyaluronic Acid'',
           vendor := Some []\<rparr>"

definition face_cream_issues :: "issue list" where
  "face_cream_issues =
     [\<lparr>itype = ''description_length'', severity = ''high'',
        message = ''Description too short (50 chars). Minimum: 100''\<rparr>,
      \<lparr>itype = ''vague_language'', severity = ''medium'',
        message = ''Contains vague terms: good, stuff''\<rparr>,
      \<lparr>itype = ''seo_title'', severity = ''high'',
        message = ''SEO title missing or too short''\<rparr>,
      \<lparr>itype = ''seo_description_missing'', severity = ''high'',
        message = ''SEO description is missing''\<rparr>,
      \<lparr>itype = ''tone_not_premium'', severity = ''medium'',
        message = ''Missing premium/luxury brand tone''\<rparr>,
      \<lparr>itype = ''missing_cta'', severity = ''medium'',
        message = ''Missing clear call-to-action''\<rparr>,
      \<lparr>itype = ''missing_benefits'', severity = ''low'',
        message = ''Could emphasize customer benefits more clearly''\<rparr>]"

definition face_cream_result :: processing_result where
  "face_cream_result =
     \<lparr>product_id = ''p1'', product_title = ''Organic Face Cream'',
      audit = \<lparr>a_product_id = ''p1'', a_product_title = ''Organic Face Cream'',
               issues_found = 7, issues = face_cream_issues, a_severity = ''high''\<rparr>,
      optimization =
        Some \<lparr>o_product_id = ''p1'',
              original_description = ''Good cream for your face. Made with natural stuff.'',
              optimized_description = Some (generate_description face_cream),
              optimized_seo_title =
                Some ''Organic Face Cream | Nourishing & Anti-Aging | LuxeBeauty'',
              optimized_seo_description =
                Some (''Experience premium organic face cream with natural ingredients. ''
                      @ ''Nourishes, protects, and rejuvenates your skin. ''
                      @ ''Shop our luxury skincare collection.''),
              improvements_made =
                [''Rewrote product description with premium tone'',
                 ''Created SEO-optimized title'', ''Created SEO meta description'']\<rparr>,
      action_required = True, priority = ''high''\<rparr>"

definition serum_result :: processing_result where
  "serum_result =
     \<lparr>product_id = ''p2'', product_title = ''Radiance Serum'',
      audit = \<lparr>a_product_id = ''p2'', a_product_title = ''Radiance Serum'',
               issues_found = 0, issues = [], a_severity = ''none''\<rparr>,
      optimization = None, action_required = False, priority = ''none''\<rparr>"

definition title_only :: processing_result where
  "title_only =
     face_cream_result
       \<lparr>optimization :=
          Some \<lparr>o_product_id = ''p1'',
                original_description = ''Good cream for your face. Made with natural stuff.'',
                optimized_description = None,
                optimized_seo_title =
                  Some ''Organic Face Cream | Nourishing & Anti-Aging | LuxeBeauty'',
                optimized_seo_description = None,
                improvements_made = [''Created SEO-optimized title'']\<rparr>\<rparr>"

section \<open>Properties of the coordinator's priority\<close>

text \<open>
  C2. The priority of an audit follows the first-match ladder on its severity and issue
  count: critical; else high on severity high or at least five issues; else medium on
  severity medium or at least three issues; else low on any issue; else none. So an audit
  with at least five issues and severity low or medium has priority high.
\<close>

theorem determine_priority_ladder:
  "determine_priority a =
     (if a_severity a = ''critical'' then ''critical''
      else if a_severity a = ''high'' \<or> issues_found a \<ge> 5 then ''high''
      else if a_severity a = ''medium'' \<or> issues_found a \<ge> 3 then ''medium''
      else if issues_found a > 0 then ''low''
      else ''none'')
   \<and> (issues_found a \<ge> 5 \<and> (a_severity a = ''low'' \<or> a_severity a = ''medium'')
        \<longrightarrow> determine_priority a = ''high'')"
  by (simp add: determine_priority_def Let_def)

theorem determine_priority_ladder_witness:
  "determine_priority \<lparr>a_product_id = ''p1'', a_product_title = ''Organic Face Cream'',
                       issues_found = length six_low_issues, issues = six_low_issues,
                       a_severity = calculate_severity six_low_issues\<rparr> = ''high''"
proof -
  have s: "calculate_severity six_low_issues = ''low''"
    by (simp add: calculate_severity_def six_low_issues_def)
  have n: "length six_low_issues = 6"
    by (simp add: six_low_issues_def)
  show ?thesis
    using determine_priority_ladder
      [of "\<lparr>a_product_id = ''p1'', a_product_title = ''Organic Face Cream'',
            issues_found = length six_low_issues, issues = six_low_issues,
            a_severity = calculate_severity six_low_issues\<rparr>"]
    by (simp add: s n)
qed

section \<open>Properties of the aggregate severity\<close>

lemma calculate_severity_cases:
  "calculate_severity iss =
     (if \<exists>i \<in> set iss. severity i = ''critical'' then ''critical''
      else if \<exists>i \<in> set iss. severity i = ''high'' then ''high''
      else if \<exists>i \<in> set iss. severity i = ''medium'' then ''medium''
      else if iss \<noteq> [] then ''low''
      else ''none'')"
proof -
  have m: "\<And>s. s \<in> set (map severity iss) \<longleftrightarrow> (\<exists>i \<in> set iss. severity i = s)"
    by (simp add: image_iff) blast
  show ?thesis
    unfolding calculate_severity_def Let_def m by simp
qed

lemma calculate_severity_max:
  assumes ne: "iss \<noteq> []" and wf: "\<forall>i \<in> set iss. severity i \<in> set severity_levels"
  shows "severity_rank (calculate_severity iss) = Max (severity_rank ` severity ` set iss)"
proof (rule sym, rule Max_eqI)
  show "finite (severity_rank ` severity ` set iss)" by simp
next
  fix y assume "y \<in> severity_rank ` severity ` set iss"
  then obtain i where i: "i \<in> set iss" and y: "y = severity_rank (severity i)" by auto
  from wf i have "severity i \<in> set severity_levels" by blast
  then show "y \<le> severity_rank (calculate_severity iss)"
    using i y ne
    by (auto simp: calculate_severity_cases severity_levels_def severity_rank_def)
next
  from ne obtain j where j: "j \<in> set iss" by (cases iss) auto
  have "\<exists>i \<in> set iss. severity i = calculate_severity iss"
  proof (cases "\<exists>i \<in> set iss. severity i = ''critical'' \<or> severity i = ''high''
                  \<or> severity i = ''medium''")
    case True
    then show ?thesis by (auto simp: calculate_severity_cases)
  next
    case False
    with wf j have "severity j = ''low''" by (auto simp: severity_levels_def)
    moreover from False ne have "calculate_severity iss = ''low''"
      by (auto simp: calculate_severity_cases)
    ultimately show ?thesis using j by auto
  qed
  then show "severity_rank (calculate_severity iss) \<in> severity_rank ` severity ` set iss"
    by force
qed

text \<open>
  C5. The aggregate severity of an issue list is critical when some issue is critical, else
  high when some issue is high, else medium when some issue is medium, else low when the
  list is not empty, and none for the empty list. On a non-empty list of issues with
  severities among the four levels it is the maximum by rank of the issues' severities.
\<close>

theorem calculate_severity_max_by_rank:
  "calculate_severity iss =
     (if \<exists>i \<in> set iss. severity i = ''critical'' then ''critical''
      else if \<exists>i \<in> set iss. severity i = ''high'' then ''high''
      else if \<exists>i \<in> set iss. severity i = ''medium'' then ''medium''
      else if iss \<noteq> [] then ''low''
      else ''none'')
   \<and> (iss \<noteq> [] \<and> (\<forall>i \<in> set iss. severity i \<in> set severity_levels)
        \<longrightarrow> severity_rank (calculate_severity iss) = Max (severity_rank ` severity ` set iss))"
  using calculate_severity_cases calculate_severity_max by blast

theorem calculate_severity_max_by_rank_witness:
  "calculate_severity mixed_issues = ''critical''
   \<and> mixed_issues \<noteq> [] \<and> set (map severity mixed_issues) \<subseteq> set severity_levels
   \<and> severity_rank (calculate_severity mixed_issues) = 4
   \<and> Max (severity_rank ` severity ` set mixed_issues) = 4"
proof -
  have ne: "mixed_issues \<noteq> []" by (simp add: mixed_issues_def)
  have wf: "\<forall>i \<in> set mixed_issues. severity i \<in> set severity_levels"
    by (simp add: mixed_issues_def severity_levels_def)
  have c: "\<exists>i \<in> set mixed_issues. severity i = ''critical''"
    by (simp add: mixed_issues_def)
  from calculate_severity_max_by_rank [of mixed_issues] c
  have v: "calculate_severity mixed_issues = ''critical''" by simp
  from calculate_severity_max_by_rank [of mixed_issues] ne wf
  have m: "severity_rank (calculate_severity mixed_issues)
           = Max (severity_rank ` severity ` set mixed_issues)"
    by blast
  have r: "severity_rank ''critical'' = 4" by (simp add: severity_rank_def)
  have sub: "set (map severity mixed_issues) \<subseteq> set severity_levels"
    using wf by auto
  show ?thesis using ne sub v m r by simp
qed

section \<open>Properties of the priority filter\<close>

lemma index_absent:
  "v \<notin> set xs \<Longrightarrow> index xs v = Inl ValueError"
  by (induction xs) auto

text \<open>
  C8. For every batch, a minimum priority that is not one of the five known levels makes
  the filtered batch run fail with \<open>ValueError\<close>, Python's invalid-argument error; no
  default level is used and no results are returned.
\<close>

theorem filter_unknown_level_fails:
  "min_priority \<notin> set priority_order
   \<Longrightarrow> process_batch_with_filters products min_priority = Inl ValueError"
  by (simp add: process_batch_with_filters_def index_absent)

theorem filter_unknown_level_fails_witness:
  "''urgent'' \<notin> set priority_order
   \<and> process_batch_with_filters [face_cream] ''urgent'' = Inl ValueError"
proof -
  have h: "''urgent'' \<notin> set priority_order" by (simp add: priority_order_def)
  show ?thesis using h filter_unknown_level_fails [OF h] by simp
qed

section \<open>Properties of the checks\<close>

lemma seo_description_issues_ladder:
  "seo_description_issues (check_seo_fields p) =
     (let sd = get_or (seo_description p) []
      in if sd = []
         then [\<lparr>itype = ''seo_description_missing'', severity = ''high'',
                message = ''SEO description is missing''\<rparr>]
         else if length sd < 80
         then [\<lparr>itype = ''seo_description_short'', severity = ''medium'',
                message = ''SEO description too short ('' @ str_nat (length sd) @ '' chars)''\<rparr>]
         else if length sd > 160
         then [\<lparr>itype = ''seo_description_long'', severity = ''low'',
                message = ''SEO description too long ('' @ str_nat (length sd)
                          @ '' chars). Max: 160''\<rparr>]
         else [])"
proof -
  have m: "str_nat 160 = ''160''"
    by code_simp
  show ?thesis
    by (simp add: seo_description_issues_def check_seo_fields_def seo_description_types_def
        Let_def m MIN_SEO_DESCRIPTION_LENGTH_def MAX_SEO_DESCRIPTION_LENGTH_def)
qed

text \<open>
  C3. For every product the SEO-description check emits at most one issue, by tiers: an empty
  SEO description gives \<open>seo_description_missing\<close> (high); a non-empty one shorter than 80
  gives \<open>seo_description_short\<close> (medium); one longer than 160 gives
  \<open>seo_description_long\<close> (low); a length in [80, 160], the two ends included, gives none.
\<close>

theorem seo_description_tiers:
  "seo_description_issues (check_seo_fields p) =
     (let sd = get_or (seo_description p) []
      in if sd = []
         then [\<lparr>itype = ''seo_description_missing'', severity = ''high'',
                message = ''SEO description is missing''\<rparr>]
         else if length sd < 80
         then [\<lparr>itype = ''seo_description_short'', severity = ''medium'',
                message = ''SEO description too short ('' @ str_nat (length sd) @ '' chars)''\<rparr>]
         else if length sd > 160
         then [\<lparr>itype = ''seo_description_long'', severity = ''low'',
                message = ''SEO description too long ('' @ str_nat (length sd)
                          @ '' chars). Max: 160''\<rparr>]
         else [])
   \<and> length (seo_description_issues (check_seo_fields p)) \<le> 1
   \<and> (80 \<le> length (get_or (seo_description p) []) \<and> length (get_or (seo_description p) []) \<le> 160
        \<longrightarrow> seo_description_issues (check_seo_fields p) = [])"
  unfolding seo_description_issues_ladder by (auto simp: Let_def)

theorem seo_description_tiers_witness:
  "map itype (seo_description_issues (check_seo_fields (with_seo_description 0)))
     = [''seo_description_missing'']
   \<and> seo_description_issues (check_seo_fields (with_seo_description 79))
     = [\<lparr>itype = ''seo_description_short'', severity = ''medium'',
         message = ''SEO description too short (79 chars)''\<rparr>]
   \<and> seo_description_issues (check_seo_fields (with_seo_description 80)) = []
   \<and> seo_description_issues (check_seo_fields (with_seo_description 160)) = []
   \<and> seo_description_issues (check_seo_fields (with_seo_description 161))
     = [\<lparr>itype = ''seo_description_long'', severity = ''low'',
         message = ''SEO description too long (161 chars). Max: 160''\<rparr>]"
proof -
  have g: "\<And>n. get_or (seo_description (with_seo_description n)) [] = replicate n (CHR ''x'')"
    by (simp add: with_seo_description_def get_or_def)
  have s79: "str_nat 79 = ''79''"
    by code_simp
  have s161: "str_nat 161 = ''161''"
    by code_simp
  show ?thesis
    using seo_description_tiers [of "with_seo_description 0"]
      seo_description_tiers [of "with_seo_description 79"]
      seo_description_tiers [of "with_seo_description 80"]
      seo_description_tiers [of "with_seo_description 160"]
      seo_description_tiers [of "with_seo_description 161"]
    by (simp add: g s79 s161 Let_def)
qed

lemma check_description_empty:
  "check_description [] =
     [\<lparr>itype = ''description_length'', severity = ''high'',
        message = ''Description too short (0 chars). Minimum: 100''\<rparr>,
      \<lparr>itype = ''missing_description'', severity = ''critical'',
        message = ''Product description is missing''\<rparr>]"
proof -
  have m: "str_nat 100 = ''100''"
    by code_simp
  have z: "str_nat 0 = ''0''"
    by code_simp
  have v: "filter (\<lambda>term. py_in (lower term) (lower [])) vague_terms = []"
    by (simp add: vague_terms_def py_in_def lower_def)
  show ?thesis
    unfolding check_description_def v
    by (simp add: m z MIN_DESCRIPTION_LENGTH_def)
qed

lemma audit_product_issues:
  "pid p = Some i \<Longrightarrow> title p = Some t
   \<Longrightarrow> audit_product p =
       (let d = get_or (description p) [];
            iss = check_description d @ check_seo_fields p @ check_tone d
                  @ check_conversion_elements d
        in Inr \<lparr>a_product_id = i, a_product_title = t, issues_found = length iss,
                 issues = iss, a_severity = calculate_severity iss\<rparr>)"
  by (simp add: audit_product_def subscript_def Let_def)

text \<open>
  C4. The description check on the empty string emits \<open>description_length\<close> (high) and
  \<open>missing_description\<close> (critical), both; so the audit of every product whose description
  is empty (and that has its id and title) holds both issues.
\<close>

theorem empty_description_both_issues:
  "check_description [] =
     [\<lparr>itype = ''description_length'', severity = ''high'',
        message = ''Description too short (0 chars). Minimum: 100''\<rparr>,
      \<lparr>itype = ''missing_description'', severity = ''critical'',
        message = ''Product description is missing''\<rparr>]
   \<and> (get_or (description p) [] = [] \<and> pid p \<noteq> None \<and> title p \<noteq> None
        \<longrightarrow> (\<exists>a. audit_product p = Inr a
               \<and> \<lparr>itype = ''description_length'', severity = ''high'',
                   message = ''Description too short (0 chars). Minimum: 100''\<rparr> \<in> set (issues a)
               \<and> \<lparr>itype = ''missing_description'', severity = ''critical'',
                   message = ''Product description is missing''\<rparr> \<in> set (issues a)
               \<and> a_severity a = ''critical''))"
proof (intro conjI impI)
  show "check_description [] =
     [\<lparr>itype = ''description_length'', severity = ''high'',
        message = ''Description too short (0 chars). Minimum: 100''\<rparr>,
      \<lparr>itype = ''missing_description'', severity = ''critical'',
        message = ''Product description is missing''\<rparr>]"
    by (rule check_description_empty)
next
  assume h: "get_or (description p) [] = [] \<and> pid p \<noteq> None \<and> title p \<noteq> None"
  then obtain i t where it: "pid p = Some i" "title p = Some t" by auto
  from h have d: "get_or (description p) [] = []" by simp
  show "\<exists>a. audit_product p = Inr a
               \<and> \<lparr>itype = ''description_length'', severity = ''high'',
                   message = ''Description too short (0 chars). Minimum: 100''\<rparr> \<in> set (issues a)
               \<and> \<lparr>itype = ''missing_description'', severity = ''critical'',
                   message = ''Product description is missing''\<rparr> \<in> set (issues a)
               \<and> a_severity a = ''critical''"
    unfolding audit_product_issues [OF it] Let_def d check_description_empty
    by (simp add: calculate_severity_def)
qed

theorem empty_description_both_issues_witness:
  "\<exists>a. audit_product (face_cream\<lparr>description := Some []\<rparr>) = Inr a
      \<and> \<lparr>itype = ''description_length'', severity = ''high'',
          message = ''Description too short (0 chars). Minimum: 100''\<rparr> \<in> set (issues a)
      \<and> \<lparr>itype = ''missing_description'', severity = ''critical'',
          message = ''Product description is missing''\<rparr> \<in> set (issues a)
      \<and> a_severity a = ''critical''"
  using empty_description_both_issues [of "face_cream\<lparr>description := Some []\<rparr>"]
  by (simp add: face_cream_def get_or_def)

lemma mentions_iff:
  "mentions w t \<longleftrightarrow> py_in w (lower t)"
proof
  assume "mentions w t"
  then obtain u where u: "sublist u t" "lower u = w" by (auto simp: mentions_def)
  from u(1) obtain ps ss where "t = ps @ u @ ss" by (auto simp: sublist_def)
  then have "lower t = lower ps @ w @ lower ss" using u(2) by (simp add: lower_def)
  then show "py_in w (lower t)" by (simp add: py_in_def)
next
  assume "py_in w (lower t)"
  then have "sublist w (map lower_char t)" by (simp add: py_in_def lower_def)
  then obtain u where "sublist u t" "w = map lower_char u"
    using sublist_map_rightE by blast
  then show "mentions w t" by (auto simp: mentions_def lower_def)
qed

section \<open>Properties of the generator\<close>

text \<open>
  C6. The synthesized SEO title is the title, a bar and the benefit (Nourishing & Anti-Aging
  when the title contains cream in any case, else Professional Anti-Aging Treatment when it
  contains serum, else Premium Quality), followed by a bar and the vendor exactly when the
  vendor is non-empty and the whole is at most 60 characters long; otherwise the vendor
  suffix is absent and the text is not cut further, whatever its length.
\<close>

theorem generate_seo_title_shape:
  "generate_seo_title p =
     (let t = get_or (title p) [];
          v = get_or (vendor p) [];
          benefit = (if mentions ''cream'' t then ''Nourishing & Anti-Aging''
                     else if mentions ''serum'' t then ''Professional Anti-Aging Treatment''
                     else ''Premium Quality'');
          base = t @ '' | '' @ benefit
      in if v \<noteq> [] \<and> length (base @ '' | '' @ v) \<le> 60 then base @ '' | '' @ v else base)"
  by (simp add: generate_seo_title_def mentions_iff Let_def)

theorem generate_seo_title_shape_witness:
  "generate_seo_title face_cream
     = ''Organic Face Cream | Nourishing & Anti-Aging | LuxeBeauty''
   \<and> generate_seo_title long_vendor_cream = ''Organic Face Cream | Nourishing & Anti-Aging''
   \<and> generate_seo_title long_title_serum
       = ''Radiance Serum with Vitamin C and Hyaluronic Acid | Professional Anti-Aging Treatment''
   \<and> length (generate_seo_title long_title_serum) > 60"
proof -
  have c: "mentions ''cream'' ''Organic Face Cream''"
    unfolding mentions_iff by code_simp
  have s: "\<not> mentions ''cream'' ''Radiance Serum with Vitamin C and Hyaluronic Acid''"
    "mentions ''serum'' ''Radiance Serum with Vitamin C and Hyaluronic Acid''"
    unfolding mentions_iff by code_simp+
  from generate_seo_title_shape [of face_cream] c
  have a: "generate_seo_title face_cream
     = ''Organic Face Cream | Nourishing & Anti-Aging | LuxeBeauty''"
    by (simp add: face_cream_def get_or_def)
  from generate_seo_title_shape [of long_vendor_cream] c
  have b: "generate_seo_title long_vendor_cream
     = ''Organic Face Cream | Nourishing & Anti-Aging''"
    by (simp add: long_vendor_cream_def face_cream_def get_or_def)
  from generate_seo_title_shape [of long_title_serum] s
  have d: "generate_seo_title long_title_serum
       = ''Radiance Serum with Vitamin C and Hyaluronic Acid | Professional Anti-Aging Treatment''"
    by (simp add: long_title_serum_def serum_def get_or_def)
  from a b d show ?thesis by simp
qed

section \<open>Facts about the pipeline\<close>

lemma audit_product_Inr:
  assumes "audit_product p = Inr a"
  shows "issues a = check_description (get_or (description p) []) @ check_seo_fields p
                    @ check_tone (get_or (description p) [])
                    @ check_conversion_elements (get_or (description p) [])"
    and "issues_found a = length (issues a)"
    and "a_severity a = calculate_severity (issues a)"
    and "pid p = Some (a_product_id a)"
    and "title p = Some (a_product_title a)"
  using assms
  by (auto simp: audit_product_def subscript_def Let_def split: option.splits)

lemma audit_issue_types:
  assumes "audit_product p = Inr a" and "i \<in> set (issues a)"
  shows "itype i \<in> set all_issue_types"
proof -
  have d: "\<And>d. j \<in> set (check_description d) \<Longrightarrow> itype j \<in> set all_issue_types" for j
    by (auto simp: check_description_def all_issue_types_def Let_def split: if_splits)
  have s: "j \<in> set (check_seo_fields p) \<Longrightarrow> itype j \<in> set all_issue_types" for j
    by (auto simp: check_seo_fields_def all_issue_types_def Let_def split: if_splits)
  have t: "\<And>d. j \<in> set (check_tone d) \<Longrightarrow> itype j \<in> set all_issue_types" for j
    by (auto simp: check_tone_def all_issue_types_def Let_def split: if_splits)
  have c: "\<And>d. j \<in> set (check_conversion_elements d) \<Longrightarrow> itype j \<in> set all_issue_types" for j
    by (auto simp: check_conversion_elements_def all_issue_types_def Let_def split: if_splits)
  from assms show ?thesis
    unfolding audit_product_Inr(1) [OF assms(1)]
    using d s t c by auto
qed

lemma all_issue_types_trigger:
  "list_all (\<lambda>ty. ty \<in> set rewrite_triggers \<or> ty = ''seo_title''
                   \<or> startswith ty ''seo_description'') all_issue_types"
  by code_simp

lemma issue_type_triggers:
  assumes "ty \<in> set all_issue_types"
  shows "ty \<in> set rewrite_triggers \<or> ty = ''seo_title'' \<or> startswith ty ''seo_description''"
  using assms all_issue_types_trigger
  by (simp only: list_all_iff)

lemma generate_description_nonempty:
  "generate_description p \<noteq> []"
  by (simp add: generate_description_def Let_def)

lemma generate_seo_title_nonempty:
  "generate_seo_title p \<noteq> []"
  by (simp add: generate_seo_title_def Let_def)

lemma generate_seo_description_nonempty:
  "generate_seo_description p \<noteq> []"
  by (simp add: generate_seo_description_def Let_def)

lemma generate_optimized_content_total:
  "pid p = Some i \<Longrightarrow> \<exists>opt. generate_optimized_content p iss = Inr opt"
  by (simp add: generate_optimized_content_def subscript_def Let_def)

lemma generate_optimized_content_Inr:
  assumes "generate_optimized_content p iss = Inr opt"
  shows "optimized_description opt =
           (if needs_description_rewrite (map itype iss) then Some (generate_description p)
            else None)"
    and "optimized_seo_title opt =
           (if ''seo_title'' \<in> set (map itype iss) then Some (generate_seo_title p) else None)"
    and "optimized_seo_description opt =
           (if list_ex (\<lambda>t. startswith t ''seo_description'') (map itype iss)
            then Some (generate_seo_description p) else None)"
    and "improvements_made opt =
           (if needs_description_rewrite (map itype iss)
            then [''Rewrote product description with premium tone''] else [])
           @ (if ''seo_title'' \<in> set (map itype iss)
              then [''Created SEO-optimized title''] else [])
           @ (if list_ex (\<lambda>t. startswith t ''seo_description'') (map itype iss)
              then [''Created SEO meta description''] else [])"
    and "pid p = Some (o_product_id opt)"
  using assms
  by (auto simp: generate_optimized_content_def subscript_def Let_def split: option.splits)

lemma process_single_product_Inr:
  assumes "process_single_product p = Inr r"
  shows "audit_product p = Inr (audit r)"
    and "pid p = Some (product_id r)"
    and "title p = Some (product_title r)"
    and "priority r = determine_priority (audit r)"
    and "issues_found (audit r) > 0
         \<Longrightarrow> \<exists>opt. generate_optimized_content p (issues (audit r)) = Inr opt
                   \<and> optimization r = Some opt"
    and "issues_found (audit r) = 0 \<Longrightarrow> optimization r = None"
    and "action_required r \<longleftrightarrow> issues_found (audit r) > 0"
  using assms
  by (auto simp: process_single_product_def subscript_def Let_def
      split: sum.splits option.splits if_splits)

lemma process_single_product_total:
  assumes "pid p = Some i" and "title p = Some t"
  shows "\<exists>r. process_single_product p = Inr r"
proof -
  from assms obtain a where a: "audit_product p = Inr a"
    by (simp add: audit_product_def subscript_def Let_def)
  from generate_optimized_content_total [OF assms(1)]
  obtain opt where "generate_optimized_content p (issues a) = Inr opt" by blast
  with a assms show ?thesis
    by (simp add: process_single_product_def subscript_def Let_def)
qed

section \<open>Facts about the export and the sample products\<close>

lemma needs_description_rewrite_iff:
  "needs_description_rewrite tys \<longleftrightarrow> (\<exists>ty \<in> set tys. ty \<in> set rewrite_triggers)"
  by (auto simp: needs_description_rewrite_def list_ex_iff)

lemma generated_field_for_issue:
  assumes a: "audit_product p = Inr a" and i: "i \<in> set (issues a)"
    and g: "generate_optimized_content p (issues a) = Inr opt"
  shows "(\<exists>s. s \<noteq> [] \<and> (optimized_description opt = Some s \<or> optimized_seo_title opt = Some s
              \<or> optimized_seo_description opt = Some s))
         \<and> improvements_made opt \<noteq> []"
proof -
  let ?tys = "map itype (issues a)"
  from issue_type_triggers [OF audit_issue_types [OF a i]]
  consider (d) "itype i \<in> set rewrite_triggers" | (t) "itype i = ''seo_title''"
    | (s) "startswith (itype i) ''seo_description''" by blast
  then show ?thesis
  proof cases
    case d
    with i have "needs_description_rewrite ?tys"
      by (auto simp: needs_description_rewrite_iff)
    with generate_optimized_content_Inr(1,4) [OF g]
    have "optimized_description opt = Some (generate_description p)"
      and "improvements_made opt \<noteq> []" by simp_all
    with generate_description_nonempty show ?thesis by blast
  next
    case t
    with i have "''seo_title'' \<in> set ?tys" by force
    with generate_optimized_content_Inr(2,4) [OF g]
    have "optimized_seo_title opt = Some (generate_seo_title p)"
      and "improvements_made opt \<noteq> []" by simp_all
    with generate_seo_title_nonempty show ?thesis by blast
  next
    case s
    with i have "list_ex (\<lambda>t. startswith t ''seo_description'') ?tys"
      by (auto simp: list_ex_iff)
    with generate_optimized_content_Inr(3,4) [OF g]
    have "optimized_seo_description opt = Some (generate_seo_description p)"
      and "improvements_made opt \<noteq> []" by simp_all
    with generate_seo_description_nonempty show ?thesis by blast
  qed
qed

lemma generated_fields_nonempty:
  assumes "generate_optimized_content p iss = Inr opt"
  shows "no_empty_field opt"
  using generate_optimized_content_Inr(1,2,3) [OF assms]
    generate_description_nonempty [of p] generate_seo_title_nonempty [of p]
    generate_seo_description_nonempty [of p]
  by (simp add: no_empty_field_def)

lemma export_for_shopify_fields:
  assumes "fields_settled r"
  shows "export_for_shopify r =
     (case optimization r of
        None \<Rightarrow> None
      | Some opt \<Rightarrow>
          if regenerated_fields opt = [] then None
          else Some \<lparr>p_product_id = product_id r, updates = regenerated_fields opt\<rparr>)"
proof (cases "optimization r")
  case None
  then show ?thesis by (simp add: export_for_shopify_def)
next
  case (Some opt)
  with assms have n: "no_empty_field opt" by (simp add: fields_settled_def)
  show ?thesis
  proof (cases "optimized_description opt")
    case None
    note d = this
    show ?thesis
    proof (cases "optimized_seo_title opt")
      case None
      then show ?thesis using Some d n
        by (cases "optimized_seo_description opt")
          (simp_all add: export_for_shopify_def regenerated_fields_def truthy_def
            no_empty_field_def Let_def)
    next
      case (Some t)
      then show ?thesis using \<open>optimization r = Some opt\<close> d n
        by (cases "optimized_seo_description opt")
          (simp_all add: export_for_shopify_def regenerated_fields_def truthy_def
            no_empty_field_def Let_def)
    qed
  next
    case (Some s)
    note d = this
    show ?thesis
    proof (cases "optimized_seo_title opt")
      case None
      then show ?thesis using \<open>optimization r = Some opt\<close> d n
        by (cases "optimized_seo_description opt")
          (simp_all add: export_for_shopify_def regenerated_fields_def truthy_def
            no_empty_field_def Let_def)
    next
      case (Some t)
      then show ?thesis using \<open>optimization r = Some opt\<close> d n
        by (cases "optimized_seo_description opt")
          (simp_all add: export_for_shopify_def regenerated_fields_def truthy_def
            no_empty_field_def Let_def)
    qed
  qed
qed

lemma export_for_shopify_Some:
  assumes "export_for_shopify r = Some pl"
  shows "updates pl \<noteq> [] \<and> p_product_id pl = product_id r"
  using assms
  by (auto simp: export_for_shopify_def Let_def split: option.splits if_splits)

lemma process_single_product_settled:
  assumes "process_single_product p = Inr r"
  shows "fields_settled r"
proof (cases "issues_found (audit r) > 0")
  case True
  from process_single_product_Inr(5) [OF assms True]
  obtain opt where "generate_optimized_content p (issues (audit r)) = Inr opt"
    and "optimization r = Some opt" by blast
  then show ?thesis
    using generated_fields_nonempty by (simp add: fields_settled_def)
next
  case False
  then have "issues_found (audit r) = 0" by simp
  from process_single_product_Inr(6) [OF assms this]
  show ?thesis by (simp add: fields_settled_def)
qed

lemma no_issues_no_payload:
  assumes "process_single_product p = Inr r" and "issues_found (audit r) = 0"
  shows "export_for_shopify r = None"
  using process_single_product_Inr(6) [OF assms]
  by (simp add: export_for_shopify_def)

lemma issues_give_payload:
  assumes r: "process_single_product p = Inr r" and n: "issues_found (audit r) > 0"
  shows "\<exists>pl. export_for_shopify r = Some pl \<and> updates pl \<noteq> []"
proof -
  note a = process_single_product_Inr(1) [OF r]
  from audit_product_Inr(2) [OF a] n obtain i where i: "i \<in> set (issues (audit r))"
    by (cases "issues (audit r)") auto
  from process_single_product_Inr(5) [OF r n]
  obtain opt where g: "generate_optimized_content p (issues (audit r)) = Inr opt"
    and o: "optimization r = Some opt" by blast
  from generated_field_for_issue [OF a i g]
  have "regenerated_fields opt \<noteq> []"
    by (auto simp: regenerated_fields_def)
  moreover from o generated_fields_nonempty [OF g] have "fields_settled r"
    by (simp add: fields_settled_def)
  ultimately show ?thesis
    using export_for_shopify_fields [of r] o by simp
qed

lemma face_cream_audit:
  "audit_product face_cream =
     Inr \<lparr>a_product_id = ''p1'', a_product_title = ''Organic Face Cream'', issues_found = 7,
          issues = face_cream_issues, a_severity = ''high''\<rparr>"
  by code_simp

lemma face_cream_optimization:
  "generate_optimized_content face_cream face_cream_issues =
     Inr \<lparr>o_product_id = ''p1'',
          original_description = ''Good cream for your face. Made with natural stuff.'',
          optimized_description = Some (generate_description face_cream),
          optimized_seo_title = Some ''Organic Face Cream | Nourishing & Anti-Aging | LuxeBeauty'',
          optimized_seo_description =
            Some (''Experience premium organic face cream with natural ingredients. ''
                  @ ''Nourishes, protects, and rejuvenates your skin. ''
                  @ ''Shop our luxury skincare collection.''),
          improvements_made =
            [''Rewrote product description with premium tone'',
             ''Created SEO-optimized title'', ''Created SEO meta description'']\<rparr>"
  by code_simp

lemma serum_evaluated:
  "process_single_product serum =
     Inr \<lparr>product_id = ''p2'', product_title = ''Radiance Serum'',
          audit = \<lparr>a_product_id = ''p2'', a_product_title = ''Radiance Serum'',
                   issues_found = 0, issues = [], a_severity = ''none''\<rparr>,
          optimization = None, action_required = False, priority = ''none''\<rparr>"
  by code_simp

lemma face_cream_processed:
  "process_single_product face_cream = Inr face_cream_result"
proof -
  have d: "determine_priority
             \<lparr>a_product_id = ''p1'', a_product_title = ''Organic Face Cream'',
              issues_found = 7, issues = face_cream_issues, a_severity = ''high''\<rparr> = ''high''"
    by (simp add: determine_priority_def)
  have s: "subscript ''id'' (pid face_cream) = Inr ''p1''"
    "subscript ''title'' (title face_cream) = Inr ''Organic Face Cream''"
    by (simp_all add: face_cream_def subscript_def)
  show ?thesis
    unfolding process_single_product_def face_cream_audit
    by (simp add: s face_cream_optimization d face_cream_result_def)
qed

lemma serum_processed:
  "process_single_product serum = Inr serum_result"
  unfolding serum_result_def by (rule serum_evaluated)

section \<open>The end-to-end example\<close>

text \<open>
  C1. Processing the product p1 (Organic Face Cream, the description "Good cream for your
  face. Made with natural stuff.", empty SEO title and SEO description, vendor LuxeBeauty,
  type Skincare) gives an audit whose issue types include \<open>description_length\<close>,
  \<open>vague_language\<close>, \<open>seo_title\<close>, \<open>seo_description_missing\<close>, \<open>tone_not_premium\<close>
  and \<open>missing_cta\<close>, the priority high, and an optimization with its three optimized
  fields set and exactly three improvements.
\<close>

theorem face_cream_end_to_end:
  "\<exists>r opt. process_single_product face_cream = Inr r
     \<and> map itype (issues (audit r)) =
         [''description_length'', ''vague_language'', ''seo_title'',
          ''seo_description_missing'', ''tone_not_premium'', ''missing_cta'',
          ''missing_benefits'']
     \<and> set [''description_length'', ''vague_language'', ''seo_title'',
             ''seo_description_missing'', ''tone_not_premium'', ''missing_cta'']
         \<subseteq> set (map itype (issues (audit r)))
     \<and> priority r = ''high''
     \<and> optimization r = Some opt
     \<and> optimized_description opt \<noteq> None
     \<and> optimized_seo_title opt \<noteq> None
     \<and> optimized_seo_description opt \<noteq> None
     \<and> length (improvements_made opt) = 3"
proof -
  have t: "map itype face_cream_issues =
         [''description_length'', ''vague_language'', ''seo_title'',
          ''seo_description_missing'', ''tone_not_premium'', ''missing_cta'',
          ''missing_benefits'']"
    by (simp add: face_cream_issues_def)
  have u: "itype ` set face_cream_issues =
         {''description_length'', ''vague_language'', ''seo_title'',
          ''seo_description_missing'', ''tone_not_premium'', ''missing_cta'',
          ''missing_benefits''}"
    by (simp add: face_cream_issues_def)
  show ?thesis
    unfolding face_cream_processed
    by (simp add: face_cream_result_def t u)
qed

section \<open>More on the priority filter\<close>

lemma process_products_loop_acc:
  "process_products_loop acc ps =
     (case process_products_loop [] ps of Inl e \<Rightarrow> Inl e | Inr rs \<Rightarrow> Inr (acc @ rs))"
proof (induction ps arbitrary: acc)
  case Nil
  then show ?case by simp
next
  case (Cons p ps)
  show ?case
  proof (cases "process_single_product p")
    case (Inl e)
    then show ?thesis by simp
  next
    case (Inr r)
    then show ?thesis
      using Cons.IH [of "acc @ [r]"] Cons.IH [of "[r]"]
      by (simp split: sum.splits)
  qed
qed

lemma process_products_Cons:
  "process_products (p # ps) =
     (case process_single_product p of
        Inl e \<Rightarrow> Inl e
      | Inr r \<Rightarrow> (case process_products ps of Inl e \<Rightarrow> Inl e | Inr rs \<Rightarrow> Inr (r # rs)))"
  using process_products_loop_acc [of "[r]" ps for r]
  by (simp add: process_products_def split: sum.splits)

lemma process_products_Nil:
  "process_products [] = Inr []"
  by (simp add: process_products_def)

lemma process_products_Inr:
  "process_products ps = Inr rs \<longleftrightarrow> map process_single_product ps = map Inr rs"
proof (induction ps arbitrary: rs)
  case Nil
  then show ?case by (auto simp: process_products_Nil)
next
  case (Cons p ps)
  show ?case
  proof (cases "process_single_product p")
    case (Inl e)
    then show ?thesis by (cases rs) (auto simp: process_products_Cons)
  next
    case (Inr r)
    note r = this
    show ?thesis
    proof (cases "process_products ps")
      case (Inl e)
      with Cons.IH have "\<And>rs'. map process_single_product ps \<noteq> map Inr rs'" by simp
      with Inl r show ?thesis by (cases rs) (auto simp: process_products_Cons)
    next
      case (Inr rs')
      with Cons.IH [of rs'] have m: "map process_single_product ps = map Inr rs'" by simp
      show ?thesis
      proof (cases rs)
        case Nil
        then show ?thesis using r Inr by (simp add: process_products_Cons)
      next
        case (Cons x xs)
        have "map Inr rs' = (map Inr xs :: (error + processing_result) list) \<longleftrightarrow> rs' = xs"
          by (simp add: inj_map_eq_map)
        then show ?thesis using r Inr m Cons by (auto simp: process_products_Cons)
      qed
    qed
  qed
qed

lemma process_products_total:
  assumes "\<forall>p \<in> set ps. pid p \<noteq> None \<and> title p \<noteq> None"
  shows "\<exists>rs. process_products ps = Inr rs"
  using assms
proof (induction ps)
  case Nil
  then show ?case by (simp add: process_products_Nil)
next
  case (Cons p ps)
  then obtain rs where rs: "process_products ps = Inr rs" by auto
  from Cons.prems obtain i t where "pid p = Some i" "title p = Some t" by auto
  from process_single_product_total [OF this] obtain r where "process_single_product p = Inr r"
    by blast
  with rs show ?case by (simp add: process_products_Cons)
qed

lemma determine_priority_known:
  "determine_priority a \<in> set priority_order"
  by (simp add: determine_priority_def priority_order_def Let_def)

lemma index_priority_order:
  assumes "s \<in> set priority_order"
  shows "index priority_order s = Inr (priority_rank s)"
proof -
  have "list_all (\<lambda>s. index priority_order s = Inr (priority_rank s)) priority_order"
    by code_simp
  with assms show ?thesis by (simp only: list_all_iff)
qed

lemma process_products_priorities:
  assumes "process_products ps = Inr rs" and "r \<in> set rs"
  shows "priority r \<in> set priority_order"
proof -
  from assms(1) have "map process_single_product ps = map Inr rs"
    by (simp add: process_products_Inr)
  then have "Inr r \<in> set (map process_single_product ps)" using assms(2) by simp
  then obtain p where "process_single_product p = Inr r" by auto
  from process_single_product_Inr(4) [OF this] show ?thesis
    by (simp add: determine_priority_known)
qed

lemma filter_by_priority_eq:
  assumes "\<forall>r \<in> set rs. priority r \<in> set priority_order"
  shows "filter_by_priority k rs = Inr (filter (\<lambda>r. priority_rank (priority r) \<ge> k) rs)"
  using assms
  by (induction rs) (simp_all add: index_priority_order)

lemma rank_high_iff:
  "priority_rank ''high'' \<le> priority_rank s \<longleftrightarrow> s = ''high'' \<or> s = ''critical''"
  by (simp add: priority_rank_def)

lemma process_batch_with_filters_eq:
  assumes "min_priority \<in> set priority_order"
  shows "process_batch_with_filters products min_priority =
     (case process_products products of
        Inl e \<Rightarrow> Inl e
      | Inr all_results \<Rightarrow>
          Inr (filter (\<lambda>r. priority_rank (priority r) \<ge> priority_rank min_priority)
                 all_results))"
proof (cases "process_products products")
  case (Inl e)
  then show ?thesis
    by (simp add: process_batch_with_filters_def index_priority_order [OF assms])
next
  case (Inr rs)
  with process_products_priorities have "\<forall>r \<in> set rs. priority r \<in> set priority_order"
    by blast
  from filter_by_priority_eq [OF this] Inr show ?thesis
    by (simp add: process_batch_with_filters_def index_priority_order [OF assms])
qed

text \<open>
  C7. For a valid minimum priority, the filtered batch run returns the results of the
  unfiltered batch run whose priority rank (none < low < medium < high < critical) is at
  least the rank of the threshold, in their order in the unfiltered output (and fails as the
  unfiltered run fails). A batch whose products all have an id and a title is processed
  product by product, in input order. With the threshold high, exactly the results of
  priority high or critical are returned.
\<close>

theorem priority_filter_keeps_rank_at_least:
  "(min_priority \<in> set priority_order \<longrightarrow>
      process_batch_with_filters products min_priority =
        (case process_products products of
           Inl e \<Rightarrow> Inl e
         | Inr all_results \<Rightarrow>
             Inr (filter (\<lambda>r. priority_rank (priority r) \<ge> priority_rank min_priority)
                    all_results)))
   \<and> ((\<forall>p \<in> set products. pid p \<noteq> None \<and> title p \<noteq> None) \<longrightarrow>
        (\<exists>all_results. process_products products = Inr all_results
            \<and> map Inr all_results = map process_single_product products))
   \<and> (process_products products = Inr all_results \<longrightarrow>
        process_batch_with_filters products ''high'' =
          Inr (filter (\<lambda>r. priority r = ''high'' \<or> priority r = ''critical'') all_results))"
proof (intro conjI impI)
  assume "min_priority \<in> set priority_order"
  then show "process_batch_with_filters products min_priority =
        (case process_products products of
           Inl e \<Rightarrow> Inl e
         | Inr all_results \<Rightarrow>
             Inr (filter (\<lambda>r. priority_rank (priority r) \<ge> priority_rank min_priority)
                    all_results))"
    by (rule process_batch_with_filters_eq)
next
  assume "\<forall>p \<in> set products. pid p \<noteq> None \<and> title p \<noteq> None"
  from process_products_total [OF this] obtain rs where rs: "process_products products = Inr rs"
    by blast
  then have "map Inr rs = map process_single_product products"
    by (simp add: process_products_Inr)
  with rs show "\<exists>all_results. process_products products = Inr all_results
            \<and> map Inr all_results = map process_single_product products" by blast
next
  assume r: "process_products products = Inr all_results"
  have h: "''high'' \<in> set priority_order" by (simp add: priority_order_def)
  show "process_batch_with_filters products ''high'' =
          Inr (filter (\<lambda>r. priority r = ''high'' \<or> priority r = ''critical'') all_results)"
    unfolding process_batch_with_filters_eq [OF h] r
    by (simp add: rank_high_iff)
qed

theorem priority_filter_keeps_rank_at_least_witness:
  "process_products [face_cream, serum] = Inr [face_cream_result, serum_result]
   \<and> process_batch_with_filters [face_cream, serum] ''high'' = Inr [face_cream_result]
   \<and> process_batch_with_filters [face_cream, serum] ''none''
       = Inr [face_cream_result, serum_result]
   \<and> process_batch_with_filters [face_cream, serum] ''critical'' = Inr []
   \<and> map Inr [face_cream_result, serum_result]
       = map process_single_product [face_cream, serum]"
proof -
  have ps: "process_products [face_cream, serum] = Inr [face_cream_result, serum_result]"
    by (simp add: process_products_Cons process_products_Nil face_cream_processed
        serum_processed)
  have wf: "\<forall>p \<in> set [face_cream, serum]. pid p \<noteq> None \<and> title p \<noteq> None"
    by (simp add: face_cream_def serum_def)
  have o: "''none'' \<in> set priority_order" "''critical'' \<in> set priority_order"
    by (simp_all add: priority_order_def)
  have p: "priority face_cream_result = ''high''" "priority serum_result = ''none''"
    by (simp_all add: face_cream_result_def serum_result_def)
  have k: "priority_rank ''none'' = 0" "priority_rank ''high'' = 3"
    "priority_rank ''critical'' = 4"
    by (simp_all add: priority_rank_def)
  note t = priority_filter_keeps_rank_at_least
  from t [of "''none''" "[face_cream, serum]" "[face_cream_result, serum_result]"] o(1) ps
  have n: "process_batch_with_filters [face_cream, serum] ''none''
             = Inr [face_cream_result, serum_result]"
    by (simp add: p k)
  from t [of "''critical''" "[face_cream, serum]" "[face_cream_result, serum_result]"] o(2) ps
  have c: "process_batch_with_filters [face_cream, serum] ''critical'' = Inr []"
    by (simp add: p k)
  from t [of "''high''" "[face_cream, serum]" "[face_cream_result, serum_result]"] ps
  have h: "process_batch_with_filters [face_cream, serum] ''high'' = Inr [face_cream_result]"
    by (simp add: p)
  from t [of "''high''" "[face_cream, serum]" "[face_cream_result, serum_result]"] wf
  obtain rs where "process_products [face_cream, serum] = Inr rs"
    and "map Inr rs = map process_single_product [face_cream, serum]"
    by blast
  with ps have m: "map Inr [face_cream_result, serum_result]
                   = map process_single_product [face_cream, serum]"
    by simp
  from ps n c h m show ?thesis by simp
qed

section \<open>Properties of the export\<close>

text \<open>
  C9. For every processing result whose optimization (if any) has no field set to the empty
  string, as every result of the coordinator has, the export returns no payload when the
  result has no optimization or no field of it is set, and otherwise the payload of the
  result's product id and exactly the set fields. A payload never has empty updates. A
  product processed with zero issues found has no payload.
\<close>

theorem export_only_regenerated_fields:
  "(fields_settled r \<longrightarrow>
      export_for_shopify r =
        (case optimization r of
           None \<Rightarrow> None
         | Some opt \<Rightarrow>
             if regenerated_fields opt = [] then None
             else Some \<lparr>p_product_id = product_id r, updates = regenerated_fields opt\<rparr>))
   \<and> (export_for_shopify r = Some pl \<longrightarrow> updates pl \<noteq> [] \<and> p_product_id pl = product_id r)
   \<and> (process_single_product p = Inr r' \<longrightarrow>
        fields_settled r' \<and> pid p = Some (product_id r')
        \<and> (issues_found (audit r') = 0 \<longrightarrow> export_for_shopify r' = None))"
  using export_for_shopify_fields [of r] export_for_shopify_Some [of r pl]
    process_single_product_settled [of p r'] process_single_product_Inr(2) [of p r']
    no_issues_no_payload [of p r']
  by blast

theorem export_only_regenerated_fields_witness:
  "export_for_shopify title_only =
     Some \<lparr>p_product_id = ''p1'',
           updates = [(''seo_title'',
                       ''Organic Face Cream | Nourishing & Anti-Aging | LuxeBeauty'')]\<rparr>
   \<and> process_single_product serum = Inr serum_result
   \<and> issues_found (audit serum_result) = 0
   \<and> export_for_shopify serum_result = None
   \<and> fields_settled face_cream_result
   \<and> export_for_shopify face_cream_result =
       Some \<lparr>p_product_id = ''p1'',
             updates =
               [(''description'', generate_description face_cream),
                (''seo_title'', ''Organic Face Cream | Nourishing & Anti-Aging | LuxeBeauty''),
                (''seo_description'',
                 ''Experience premium organic face cream with natural ingredients. ''
                 @ ''Nourishes, protects, and rejuvenates your skin. ''
                 @ ''Shop our luxury skincare collection.'')]\<rparr>"
proof -
  note t = export_only_regenerated_fields
  have s: "fields_settled title_only"
    by (simp add: fields_settled_def no_empty_field_def title_only_def)
  from t [where r = title_only and p = serum and r' = serum_result] s
  have a: "export_for_shopify title_only =
     Some \<lparr>p_product_id = ''p1'',
           updates = [(''seo_title'',
                       ''Organic Face Cream | Nourishing & Anti-Aging | LuxeBeauty'')]\<rparr>"
    by (simp add: title_only_def regenerated_fields_def face_cream_result_def)
  have z: "issues_found (audit serum_result) = 0"
    by (simp add: serum_result_def)
  from t [where r = title_only and p = serum and r' = serum_result] serum_processed z
  have b: "export_for_shopify serum_result = None"
    by blast
  from t [where r = face_cream_result and p = face_cream and r' = face_cream_result] face_cream_processed
  have c: "fields_settled face_cream_result"
    by blast
  from t [where r = face_cream_result and p = face_cream and r' = face_cream_result] c
  have d: "export_for_shopify face_cream_result =
       Some \<lparr>p_product_id = ''p1'',
             updates =
               [(''description'', generate_description face_cream),
                (''seo_title'', ''Organic Face Cream | Nourishing & Anti-Aging | LuxeBeauty''),
                (''seo_description'',
                 ''Experience premium organic face cream with natural ingredients. ''
                 @ ''Nourishes, protects, and rejuvenates your skin. ''
                 @ ''Shop our luxury skincare collection.'')]\<rparr>"
    by (simp add: regenerated_fields_def face_cream_result_def)
  from a serum_processed z b c d show ?thesis by blast
qed

section \<open>Every issue regenerates a field\<close>

text \<open>
  C10. Every issue of an audit has a type that triggers a field of the synthesizer. So for
  every product and the non-empty issue list of its audit, the synthesized optimization has
  one of its three optimized fields set to a non-empty string and a non-empty list of
  improvements; and every product processed with at least one issue found has an export
  payload with non-empty updates.
\<close>

theorem every_issue_regenerates_a_field:
  "(audit_product p = Inr a \<and> i \<in> set (issues a) \<longrightarrow>
      itype i \<in> set rewrite_triggers \<or> itype i = ''seo_title''
      \<or> startswith (itype i) ''seo_description'')
   \<and> (audit_product p = Inr a \<and> issues a \<noteq> [] \<longrightarrow>
        (\<exists>opt. generate_optimized_content p (issues a) = Inr opt
           \<and> (\<exists>s. s \<noteq> [] \<and> (optimized_description opt = Some s
                    \<or> optimized_seo_title opt = Some s
                    \<or> optimized_seo_description opt = Some s))
           \<and> improvements_made opt \<noteq> []))
   \<and> (process_single_product p = Inr r \<and> issues_found (audit r) > 0 \<longrightarrow>
        (\<exists>pl. export_for_shopify r = Some pl \<and> updates pl \<noteq> []))"
proof (intro conjI impI)
  assume "audit_product p = Inr a \<and> i \<in> set (issues a)"
  then show "itype i \<in> set rewrite_triggers \<or> itype i = ''seo_title''
      \<or> startswith (itype i) ''seo_description''"
    using issue_type_triggers audit_issue_types by blast
next
  assume h: "audit_product p = Inr a \<and> issues a \<noteq> []"
  then obtain j where j: "j \<in> set (issues a)" by (cases "issues a") auto
  from h audit_product_Inr(4) have "pid p = Some (a_product_id a)" by blast
  from generate_optimized_content_total [OF this]
  obtain opt where g: "generate_optimized_content p (issues a) = Inr opt" by blast
  from h generated_field_for_issue [OF _ j g] g
  show "\<exists>opt. generate_optimized_content p (issues a) = Inr opt
           \<and> (\<exists>s. s \<noteq> [] \<and> (optimized_description opt = Some s
                    \<or> optimized_seo_title opt = Some s
                    \<or> optimized_seo_description opt = Some s))
           \<and> improvements_made opt \<noteq> []"
    by blast
next
  assume "process_single_product p = Inr r \<and> issues_found (audit r) > 0"
  then show "\<exists>pl. export_for_shopify r = Some pl \<and> updates pl \<noteq> []"
    using issues_give_payload by blast
qed

theorem every_issue_regenerates_a_field_witness:
  "audit_product face_cream =
     Inr \<lparr>a_product_id = ''p1'', a_product_title = ''Organic Face Cream'', issues_found = 7,
          issues = face_cream_issues, a_severity = ''high''\<rparr>
   \<and> face_cream_issues \<noteq> []
   \<and> (\<exists>opt. generate_optimized_content face_cream face_cream_issues = Inr opt
         \<and> (\<exists>s. s \<noteq> [] \<and> (optimized_description opt = Some s
                  \<or> optimized_seo_title opt = Some s
                  \<or> optimized_seo_description opt = Some s))
         \<and> improvements_made opt \<noteq> [])
   \<and> process_single_product face_cream = Inr face_cream_result
   \<and> issues_found (audit face_cream_result) > 0
   \<and> (\<exists>pl. export_for_shopify face_cream_result = Some pl \<and> updates pl \<noteq> [])
   \<and> list_all (\<lambda>i. itype i \<in> set rewrite_triggers \<or> itype i = ''seo_title''
                    \<or> startswith (itype i) ''seo_description'') face_cream_issues"
proof -
  let ?a = "\<lparr>a_product_id = ''p1'', a_product_title = ''Organic Face Cream'',
             issues_found = 7, issues = face_cream_issues, a_severity = ''high''\<rparr>"
  note t = every_issue_regenerates_a_field
  have ne: "face_cream_issues \<noteq> []" by (simp add: face_cream_issues_def)
  have n: "issues_found (audit face_cream_result) > 0"
    by (simp add: face_cream_result_def)
  from t [where p = face_cream and a = ?a and r = face_cream_result] face_cream_audit ne
  have g: "\<exists>opt. generate_optimized_content face_cream face_cream_issues = Inr opt
         \<and> (\<exists>s. s \<noteq> [] \<and> (optimized_description opt = Some s
                  \<or> optimized_seo_title opt = Some s
                  \<or> optimized_seo_description opt = Some s))
         \<and> improvements_made opt \<noteq> []"
    by simp
  from t [where p = face_cream and a = ?a and r = face_cream_result] face_cream_processed n
  have e: "\<exists>pl. export_for_shopify face_cream_result = Some pl \<and> updates pl \<noteq> []"
    by blast
  have "\<forall>i \<in> set face_cream_issues. itype i \<in> set rewrite_triggers \<or> itype i = ''seo_title''
                    \<or> startswith (itype i) ''seo_description''"
  proof
    fix i assume "i \<in> set face_cream_issues"
    with t [where p = face_cream and a = ?a and i = i and r = face_cream_result] face_cream_audit
    show "itype i \<in> set rewrite_triggers \<or> itype i = ''seo_title''
                    \<or> startswith (itype i) ''seo_description''"
      by simp
  qed
  then have l: "list_all (\<lambda>i. itype i \<in> set rewrite_triggers \<or> itype i = ''seo_title''
                    \<or> startswith (itype i) ''seo_description'') face_cream_issues"
    by (simp only: list_all_iff)
  from face_cream_audit ne g face_cream_processed n e l show ?thesis by blast
qed

end
